theory Spec2Isabelle
  imports Main
begin

section \<open>Tool calls on top of a text-generation engine: \<open>vllm/entrypoints/openai/tools.py\<close>\<close>

text \<open>
  A shallow embedding of the tool prompt injector (\<open>ToolsCallsTemplate\<close>,
  \<open>OpenAIToolsPrompter\<close>) and of the call capture (\<open>ChatPromptCapture\<close>).
  Python exceptions are values of \<open>error\<close>; an object that is mutated in place is passed
  in and returned, together with the exception (if any) that ended the call, so that the
  object's state after a failed call is part of the model.  A Python \<open>str\<close> is a
  \<open>string\<close>, each \<open>char\<close> read as a code point below 256.
\<close>

subsection \<open>Python values\<close>

datatype error = TypeError | KeyError | IndexError | ValueError

text \<open>
  What \<open>json.loads\<close> returns: \<open>None\<close>, \<open>bool\<close>, \<open>int\<close>, \<open>float\<close>, \<open>str\<close>,
  \<open>list\<close> and \<open>dict\<close> (keys in insertion order, looked up with \<open>map_of\<close>).  A finite
  float is kept as mantissa and binary exponent; nothing here computes with floats.
\<close>

datatype pyfloat = Finite int int | Infinite bool | NaN

datatype json =
    JNull
  | JBool bool
  | JInt int
  | JFloat pyfloat
  | JStr string
  | JList "json list"
  | JDict "(string \<times> json) list"

text \<open>\<open>s.startswith(p)\<close> and the substring test \<open>k in s\<close> of two \<open>str\<close>.\<close>

fun startswith :: "string \<Rightarrow> string \<Rightarrow> bool" where
  "startswith s [] = True"
| "startswith [] (p # ps) = False"
| "startswith (c # cs) (p # ps) = (c = p \<and> startswith cs ps)"

fun str_contains :: "string \<Rightarrow> string \<Rightarrow> bool" where
  "str_contains k [] = (k = [])"
| "str_contains k (c # cs) = (startswith (c # cs) k \<or> str_contains k cs)"

text \<open>
  \<open>key in v\<close> for a \<open>str\<close> key: key membership on a \<open>dict\<close>, element equality on a
  \<open>list\<close> (only a \<open>str\<close> element equals a \<open>str\<close>), substring on a \<open>str\<close>, and
  \<open>TypeError: argument of type ... is not iterable\<close> on everything else.
\<close>

fun py_contains :: "string \<Rightarrow> json \<Rightarrow> error + bool" where
  "py_contains k (JDict d) = Inr (map_of d k \<noteq> None)"
| "py_contains k (JList xs) = Inr (JStr k \<in> set xs)"
| "py_contains k (JStr s) = Inr (str_contains k s)"
| "py_contains k JNull = Inl TypeError"
| "py_contains k (JBool b) = Inl TypeError"
| "py_contains k (JInt i) = Inl TypeError"
| "py_contains k (JFloat f) = Inl TypeError"

text \<open>
  \<open>v[key]\<close> for a \<open>str\<close> key: \<open>KeyError\<close> for a \<open>dict\<close> without the key,
  \<open>TypeError\<close> for a \<open>list\<close> or \<open>str\<close> (indices must be integers) and for a value
  that is not subscriptable.
\<close>

fun py_getitem :: "json \<Rightarrow> string \<Rightarrow> error + json" where
  "py_getitem (JDict d) k = (case map_of d k of None \<Rightarrow> Inl KeyError | Some v \<Rightarrow> Inr v)"
| "py_getitem (JList xs) k = Inl TypeError"
| "py_getitem (JStr s) k = Inl TypeError"
| "py_getitem JNull k = Inl TypeError"
| "py_getitem (JBool b) k = Inl TypeError"
| "py_getitem (JInt i) k = Inl TypeError"
| "py_getitem (JFloat f) k = Inl TypeError"

text \<open>\<open>xs[i]\<close> on a list: a negative index counts from the end, out of range raises.\<close>

definition py_list_get :: "'a list \<Rightarrow> int \<Rightarrow> error + 'a" where
  "py_list_get xs i =
     (if 0 \<le> i \<and> i < int (length xs) then Inr (xs ! nat i)
      else if i < 0 \<and> - int (length xs) \<le> i then Inr (xs ! nat (int (length xs) + i))
      else Inl IndexError)"

text \<open>\<open>a + b\<close> where either operand may be \<open>None\<close>: \<open>TypeError\<close> unless both are \<open>str\<close>.\<close>

fun py_str_add :: "string option \<Rightarrow> string option \<Rightarrow> error + string" where
  "py_str_add (Some a) (Some b) = Inr (a @ b)"
| "py_str_add a b = Inl TypeError"

text \<open>\<open>str(i)\<close> of an \<open>int\<close>: decimal digits, a leading \<open>-\<close> when negative.\<close>

function str_nat :: "nat \<Rightarrow> string" where
  "str_nat n = (if n < 10 then [''0123456789'' ! n]
                else str_nat (n div 10) @ [''0123456789'' ! (n mod 10)])"
  by pat_completeness auto
termination
  by (relation "measure (\<lambda>n. n)") auto

declare str_nat.simps [simp del]

definition str_int :: "int \<Rightarrow> string" where
  "str_int i = (if i < 0 then CHR ''-'' # str_nat (nat (- i)) else str_nat (nat i))"

subsection \<open>\<open>ChatPromptCapture\<close>: the state and \<open>reset\<close>\<close>

text \<open>
  The fields of \<open>ChatPromptCapture.__init__\<close>, under the prefix \<open>cap_\<close>:
  \<open>content\<close>, \<open>maybe_function_call\<close>, \<open>is_function_call\<close>, \<open>prefix_size\<close>,
  \<open>calls_list\<close>.
\<close>

record ChatPromptCapture =
  cap_content :: string
  cap_maybe_function_call :: bool
  cap_is_function_call :: bool
  cap_prefix_size :: int
  cap_calls_list :: "json list"

definition ChatPromptCapture_init :: ChatPromptCapture where
  "ChatPromptCapture_init =
     \<lparr>cap_content = [], cap_maybe_function_call = False, cap_is_function_call = False,
      cap_prefix_size = 0, cap_calls_list = []\<rparr>"

definition reset :: "bool \<Rightarrow> ChatPromptCapture \<Rightarrow> ChatPromptCapture" where
  "reset reset_calls_list self =
     (let self = self\<lparr>cap_content := []\<rparr>;
          self = self\<lparr>cap_maybe_function_call := False\<rparr>;
          self = self\<lparr>cap_is_function_call := False\<rparr>;
          self = self\<lparr>cap_prefix_size := 0\<rparr>
      in if reset_calls_list then self\<lparr>cap_calls_list := []\<rparr> else self)"

definition num_calls :: "ChatPromptCapture \<Rightarrow> nat" where
  "num_calls self = length (cap_calls_list self)"

subsection \<open>Requests, tools and the template\<close>

text \<open>
  The request types are declared in \<open>protocol.py\<close>; only the fields \<open>tools.py\<close> reads or
  writes are named (\<open>tool.type\<close>, \<open>tool.function.name\<close>, \<open>message.content\<close>,
  \<open>request.messages\<close>, \<open>request.tools\<close>, \<open>request.tool_choice\<close>), every other field
  lives in the records' extension.  A message's \<open>content\<close> may be \<open>None\<close>
  (\<open>content_from_assistant\<close> tests for it); \<open>request.messages\<close> is a \<open>str\<close> or a list.
\<close>

record FunctionDefinition =
  fd_name :: string
  fd_description :: "string option"
  fd_parameters :: json

record ChatCompletionToolParam =
  tool_type :: string
  tool_function :: FunctionDefinition

record ChatCompletionMessage =
  msg_role :: string
  msg_content :: "string option"

datatype 'm messages =
    MessagesStr string
  | MessagesList "'m ChatCompletionMessage_scheme list"

record 'm ChatCompletionRequest =
  req_messages :: "'m messages"
  req_tools :: "ChatCompletionToolParam list option"
  req_tool_choice :: "string option"

record Function =
  fn_name :: string
  fn_arguments :: string

record ChatCompletionMessageToolCall =
  tc_id :: string
  tc_type :: string
  tc_function :: Function

record ChoiceDeltaToolCall =
  dtc_index :: int
  dtc_id :: string
  dtc_type :: string
  dtc_function :: Function

text \<open>
  The jinja template \<open>templates/tools_functions.jinja\<close> is not part of the sources: its
  three views (\<open>CONTEXT\<close> = \<open>FUNCTIONS_LIST\<close>, \<open>CALL_TOKEN\<close>, \<open>CALLS_RESPONSES\<close>) are
  parameters.  \<open>OpenAIToolsPrompter.__init__\<close> tests the call token against \<open>None\<close>, so
  that view may be \<open>None\<close> here.
\<close>

record ToolsCallsTemplate =
  render_FUNCTIONS_LIST :: "string option \<Rightarrow> ChatCompletionToolParam list \<Rightarrow> string"
  render_CALL_TOKEN :: "string option"
  render_CALLS_RESPONSES :: "ChatCompletionMessageToolCall list \<Rightarrow> string"

definition get_func_call_token :: "ToolsCallsTemplate \<Rightarrow> string option" where
  "get_func_call_token self = render_CALL_TOKEN self"

definition renderToolResponses ::
  "ToolsCallsTemplate \<Rightarrow> ChatCompletionMessageToolCall list \<Rightarrow> string" where
  "renderToolResponses self tool_calls = render_CALLS_RESPONSES self tool_calls"

text \<open>
  The \<open>for tool in tools_list\<close> loop of \<open>renderToolsList\<close>: the first tool of type
  \<open>"function"\<close> whose name is the choice is rendered alone; the loop falling through is
  \<open>return None\<close>.
\<close>

fun renderToolsList_search ::
  "ToolsCallsTemplate \<Rightarrow> string \<Rightarrow> ChatCompletionToolParam list \<Rightarrow> string option" where
  "renderToolsList_search self tool_choice [] = None"
| "renderToolsList_search self tool_choice (tool # tools_list) =
     (if tool_type tool = ''function'' then
        if fd_name (tool_function tool) = tool_choice
        then Some (render_FUNCTIONS_LIST self (Some tool_choice) [tool])
        else renderToolsList_search self tool_choice tools_list
      else renderToolsList_search self tool_choice tools_list)"

definition renderToolsList ::
  "ToolsCallsTemplate \<Rightarrow> string option \<Rightarrow> ChatCompletionToolParam list \<Rightarrow> string option" where
  "renderToolsList self tool_choice tools_list =
     (let tool_choice = (if tool_choice = Some ''auto'' then None else tool_choice)
      in case tool_choice of
           Some c \<Rightarrow> renderToolsList_search self c tools_list
         | None \<Rightarrow> Some (render_FUNCTIONS_LIST self None tools_list))"

subsection \<open>\<open>OpenAIToolsPrompter\<close>\<close>

record OpenAIToolsPrompter =
  template :: ToolsCallsTemplate
  call_token_str :: "string option"
  call_token_pre :: "char option"

text \<open>\<open>__init__\<close>: \<open>call_token_str[0]\<close> raises \<open>IndexError\<close> on an empty token.\<close>

definition OpenAIToolsPrompter_init :: "ToolsCallsTemplate \<Rightarrow> error + OpenAIToolsPrompter" where
  "OpenAIToolsPrompter_init t =
     (case get_func_call_token t of
        None \<Rightarrow> Inr \<lparr>template = t, call_token_str = None, call_token_pre = None\<rparr>
      | Some [] \<Rightarrow> Inl IndexError
      | Some (c # cs) \<Rightarrow>
          Inr \<lparr>template = t, call_token_str = Some (c # cs), call_token_pre = Some c\<rparr>)"

definition func_call_token :: "OpenAIToolsPrompter \<Rightarrow> string option" where
  "func_call_token self = call_token_str self"

text \<open>
  \<open>request.tool_choice is not "auto"\<close> compares object identity, not value: a string
  equal to \<open>"auto"\<close> may or may not be the literal's object.  \<open>same_object\<close> says whether
  it is, for a choice that equals \<open>"auto"\<close>; a different string is never the same object.
\<close>

definition is_not_auto_literal :: "bool \<Rightarrow> string option \<Rightarrow> bool" where
  "is_not_auto_literal same_object tool_choice =
     (\<not> (tool_choice = Some ''auto'' \<and> same_object))"

text \<open>
  \<open>inject_prompt\<close> mutates the request in place and returns nothing: the model returns
  the exception that ended the call, if any, and the request as it is afterwards.  Both
  assignments evaluate \<open>text_inject + ...\<close> first, so a \<open>TypeError\<close> there leaves the
  request as it was.
\<close>

definition inject_prompt ::
  "OpenAIToolsPrompter \<Rightarrow> bool \<Rightarrow> ('m, 'a) ChatCompletionRequest_scheme
     \<Rightarrow> error option \<times> ('m, 'a) ChatCompletionRequest_scheme" where
  "inject_prompt self same_object request =
     (case req_tools request of
        None \<Rightarrow> (None, request)
      | Some tools \<Rightarrow>
          if call_token_str self \<noteq> None \<and> length tools \<noteq> 0 then
            let select_tool_choice =
                  (if req_tool_choice request \<noteq> None
                      \<and> is_not_auto_literal same_object (req_tool_choice request)
                   then req_tool_choice request else None);
                text_inject = renderToolsList (template self) select_tool_choice tools
            in case req_messages request of
                 MessagesStr s \<Rightarrow>
                   (case py_str_add text_inject (Some s) of
                      Inl e \<Rightarrow> (Some e, request)
                    | Inr t \<Rightarrow> (None, request\<lparr>req_messages := MessagesStr t\<rparr>))
               | MessagesList ms \<Rightarrow>
                   if length ms \<ge> 1 then
                     (case py_str_add text_inject (msg_content (ms ! 0)) of
                        Inl e \<Rightarrow> (Some e, request)
                      | Inr t \<Rightarrow>
                          (None, request\<lparr>req_messages :=
                             MessagesList (ms[0 := (ms ! 0)\<lparr>msg_content := Some t\<rparr>])\<rparr>))
                   else (None, request)
          else (None, request))"

text \<open>
  A template and a prompter to evaluate the injector on: the tool list view prints the
  choice and then the names of the tools it is given.
\<close>

definition example_template :: ToolsCallsTemplate where
  "example_template =
     \<lparr>render_FUNCTIONS_LIST =
        (\<lambda>choice tools. ''Tools('' @ (case choice of None \<Rightarrow> ''any'' | Some c \<Rightarrow> c) @ ''):''
             @ concat (map (\<lambda>t. CHR '' '' # fd_name (tool_function t)) tools) @ ''. ''),
      render_CALL_TOKEN = Some ''<<CALL>>'',
      render_CALLS_RESPONSES = (\<lambda>calls. concat (map tc_id calls))\<rparr>"

definition example_prompter :: OpenAIToolsPrompter where
  "example_prompter =
     \<lparr>template = example_template, call_token_str = Some ''<<CALL>>'',
      call_token_pre = Some CHR ''<''\<rparr>"

definition example_tool :: "string \<Rightarrow> ChatCompletionToolParam" where
  "example_tool n =
     \<lparr>tool_type = ''function'',
      tool_function = \<lparr>fd_name = n, fd_description = None, fd_parameters = JDict []\<rparr>\<rparr>"

subsection \<open>\<open>str.split\<close>\<close>

text \<open>
  \<open>s.split(sep)\<close> with a non-empty separator: the pieces between the occurrences of
  \<open>sep\<close>, found from left to right without overlap; there is always at least one piece.
  \<open>cur\<close> holds the piece being read, reversed.
\<close>

function split_sep :: "string \<Rightarrow> string \<Rightarrow> string \<Rightarrow> string list" where
  "split_sep sep cur [] = [rev cur]"
| "split_sep sep cur (c # cs) =
     (if sep \<noteq> [] \<and> startswith (c # cs) sep
      then rev cur # split_sep sep [] (drop (length sep - 1) cs)
      else split_sep sep (c # cur) cs)"
  by pat_completeness auto
termination
  by (relation "measure (\<lambda>(sep, cur, s). length s)") auto

text \<open>
  \<open>s.split(None)\<close> splits on runs of whitespace and returns no empty piece.  The
  whitespace code points below 256 are 9 to 13, 28 to 32, 133 and 160.
\<close>

definition isspace :: "char \<Rightarrow> bool" where
  "isspace c =
     (let n = (of_char c :: nat)
      in (9 \<le> n \<and> n \<le> 13) \<or> (28 \<le> n \<and> n \<le> 32) \<or> n = 133 \<or> n = 160)"

fun split_whitespace :: "string \<Rightarrow> string \<Rightarrow> string list" where
  "split_whitespace cur [] = (if cur = [] then [] else [rev cur])"
| "split_whitespace cur (c # cs) =
     (if isspace c
      then (if cur = [] then split_whitespace [] cs else rev cur # split_whitespace [] cs)
      else split_whitespace (c # cur) cs)"

text \<open>\<open>s.split(sep)\<close>: \<open>ValueError: empty separator\<close> for \<open>sep = ""\<close>.\<close>

definition py_split :: "string \<Rightarrow> string option \<Rightarrow> error + string list" where
  "py_split s sep =
     (case sep of
        None \<Rightarrow> Inr (split_whitespace [] s)
      | Some [] \<Rightarrow> Inl ValueError
      | Some (c # cs) \<Rightarrow> Inr (split_sep (c # cs) [] s))"

subsection \<open>\<open>ChatPromptCapture.make_calls_list\<close>\<close>

text \<open>
  \<open>json.loads\<close> is a parameter \<open>loads\<close>: \<open>None\<close> where it raises \<open>JSONDecodeError\<close>,
  the only exception the \<open>try\<close> catches.  The loop appends to \<open>self.calls_list\<close> as it
  goes, so an exception leaves the calls appended before it.
\<close>

fun make_calls_loop ::
  "(string \<Rightarrow> json option) \<Rightarrow> string list \<Rightarrow> ChatPromptCapture
     \<Rightarrow> error option \<times> ChatPromptCapture" where
  "make_calls_loop loads [] self = (None, self)"
| "make_calls_loop loads (v_call # calls_list) self =
     (if length v_call \<noteq> 0 then
        case loads v_call of
          None \<Rightarrow> make_calls_loop loads calls_list self
        | Some call_dict \<Rightarrow>
            (case py_contains ''call'' call_dict of
               Inl e \<Rightarrow> (Some e, self)
             | Inr True \<Rightarrow>
                 make_calls_loop loads calls_list
                   (self\<lparr>cap_calls_list := cap_calls_list self @ [call_dict]\<rparr>)
             | Inr False \<Rightarrow> make_calls_loop loads calls_list self)
      else make_calls_loop loads calls_list self)"

definition make_calls_list ::
  "(string \<Rightarrow> json option) \<Rightarrow> OpenAIToolsPrompter \<Rightarrow> ChatPromptCapture
     \<Rightarrow> error option \<times> ChatPromptCapture" where
  "make_calls_list loads prompter self =
     (case py_split (cap_content self) (func_call_token prompter) of
        Inl e \<Rightarrow> (Some e, self)
      | Inr calls_list \<Rightarrow> make_calls_loop loads calls_list self)"

subsection \<open>The call record converter\<close>

definition and_then :: "error + 'a \<Rightarrow> ('a \<Rightarrow> error + 'b) \<Rightarrow> error + 'b" where
  "and_then r f = (case r of Inl e \<Rightarrow> Inl e | Inr v \<Rightarrow> f v)"

text \<open>
  \<open>"call_" + v\<close> for the value \<open>v\<close> of \<open>call["call"]\<close>: \<open>TypeError\<close> unless \<open>v\<close> is a
  \<open>str\<close>.  \<open>Function\<close> is a pydantic model of \<open>protocol.py\<close> with the \<open>str\<close> fields
  \<open>name\<close> and \<open>arguments\<close>; a name that is not a \<open>str\<close> is taken to end the call there
  with the exception the concatenation for the id would raise.
\<close>

fun as_str :: "json \<Rightarrow> error + string" where
  "as_str (JStr s) = Inr s"
| "as_str v = Inl TypeError"

text \<open>
  \<open>json.dumps\<close> is a parameter \<open>dumps\<close>.  \<open>arguments\<close> is \<open>None\<close> both when the key is
  missing and when its value is JSON \<open>null\<close>.
\<close>

definition to_ChatCompletionMessageToolCall ::
  "(json \<Rightarrow> string) \<Rightarrow> ChatPromptCapture \<Rightarrow> int
     \<Rightarrow> error + ChatCompletionMessageToolCall option" where
  "to_ChatCompletionMessageToolCall dumps self call_id =
     (if length (cap_calls_list self) \<noteq> 0 \<and> call_id < int (length (cap_calls_list self)) then
        and_then (py_list_get (cap_calls_list self) call_id) (\<lambda>call.
        and_then (py_contains ''arguments'' call) (\<lambda>has_arguments.
        and_then (if has_arguments then py_getitem call ''arguments'' else Inr JNull) (\<lambda>arguments.
        and_then (and_then (py_getitem call ''call'') as_str) (\<lambda>name.
          let function_call =
                \<lparr>fn_name = name,
                 fn_arguments = (if arguments \<noteq> JNull then dumps arguments else [])\<rparr>
          in Inr (Some \<lparr>tc_id = ''call_'' @ name @ ''_'' @ str_int call_id,
                        tc_type = ''function'',
                        tc_function = function_call\<rparr>)))))
      else Inr None)"

text \<open>The loops \<open>for call_id in range(calls_count)\<close>: an exception ends the loop.\<close>

fun collect_calls :: "(int \<Rightarrow> error + 'a) \<Rightarrow> nat list \<Rightarrow> 'a list \<Rightarrow> error + 'a list" where
  "collect_calls f [] tools_calls_list = Inr tools_calls_list"
| "collect_calls f (call_id # ids) tools_calls_list =
     (case f (int call_id) of
        Inl e \<Rightarrow> Inl e
      | Inr v \<Rightarrow> collect_calls f ids (tools_calls_list @ [v]))"

definition to_ChatCompletionMessageToolCallList ::
  "(json \<Rightarrow> string) \<Rightarrow> ChatPromptCapture
     \<Rightarrow> error + ChatCompletionMessageToolCall option list" where
  "to_ChatCompletionMessageToolCallList dumps self =
     collect_calls (to_ChatCompletionMessageToolCall dumps self) [0 ..< num_calls self] []"

definition to_ChoiceDeltaToolCall ::
  "(json \<Rightarrow> string) \<Rightarrow> ChatPromptCapture \<Rightarrow> int \<Rightarrow> error + ChoiceDeltaToolCall option" where
  "to_ChoiceDeltaToolCall dumps self call_id =
     and_then (to_ChatCompletionMessageToolCall dumps self call_id) (\<lambda>mesg.
       case mesg of
         Some m \<Rightarrow> Inr (Some \<lparr>dtc_index = call_id, dtc_id = tc_id m, dtc_type = tc_type m,
                              dtc_function = tc_function m\<rparr>)
       | None \<Rightarrow> Inr None)"

definition to_ChoiceDeltaToolCallList ::
  "(json \<Rightarrow> string) \<Rightarrow> ChatPromptCapture \<Rightarrow> error + ChoiceDeltaToolCall option list" where
  "to_ChoiceDeltaToolCallList dumps self =
     collect_calls (to_ChoiceDeltaToolCall dumps self) [0 ..< num_calls self] []"

subsection \<open>Inputs for evaluation\<close>

definition example_request :: "unit ChatCompletionRequest" where
  "example_request =
     \<lparr>req_messages = MessagesList
        [\<lparr>msg_role = ''system'', msg_content = Some ''Be brief.''\<rparr>,
         \<lparr>msg_role = ''user'', msg_content = Some ''What time is it?''\<rparr>],
      req_tools = Some [example_tool ''time'', example_tool ''weather''],
      req_tool_choice = Some ''weather''\<rparr>"

text \<open>
  \<open>json.loads\<close> and \<open>json.dumps\<close> on the payloads of the examples below: the texts
  \<open>123\<close>, \<open>"call"\<close>, \<open>{"call": "search"}\<close> and \<open>{"call": "time"}\<close> decode, the text
  \<open>{not json\<close> does not.
\<close>

definition example_loads :: "string \<Rightarrow> json option" where
  "example_loads s =
     (if s = ''123'' then Some (JInt 123)
      else if s = ''\"call\"'' then Some (JStr ''call'')
      else if s = ''{\"call\": \"search\"}'' then Some (JDict [(''call'', JStr ''search'')])
      else if s = ''{\"call\": \"time\"}'' then Some (JDict [(''call'', JStr ''time'')])
      else None)"

definition example_dumps :: "json \<Rightarrow> string" where
  "example_dumps v = (if v = JDict [(''q'', JStr ''x'')] then ''{\"q\": \"x\"}'' else ''null'')"

definition example_capture :: ChatPromptCapture where
  "example_capture = ChatPromptCapture_init\<lparr>cap_calls_list :=
      [JDict [(''call'', JStr ''search''), (''arguments'', JDict [(''q'', JStr ''x'')])],
       JDict [(''call'', JStr ''time'')]]\<rparr>"

section \<open>Properties\<close>

subsection \<open>\<open>reset\<close>\<close>

text \<open>
  C9.  \<open>reset(reset_calls_list)\<close> always clears the buffer \<open>content\<close>, both flags
  \<open>maybe_function_call\<close> and \<open>is_function_call\<close> and the counter \<open>prefix_size\<close>; it
  leaves the captured calls as they are when \<open>reset_calls_list\<close> is false (the default)
  and empties them when it is true.
\<close>

theorem reset_clears:
  "reset False self =
     self\<lparr>cap_content := [], cap_maybe_function_call := False,
          cap_is_function_call := False, cap_prefix_size := 0\<rparr>
   \<and> reset True self =
     self\<lparr>cap_content := [], cap_maybe_function_call := False,
          cap_is_function_call := False, cap_prefix_size := 0, cap_calls_list := []\<rparr>
   \<and> cap_content (reset b self) = []
   \<and> cap_maybe_function_call (reset b self) = False
   \<and> cap_is_function_call (reset b self) = False
   \<and> cap_prefix_size (reset b self) = 0
   \<and> cap_calls_list (reset False self) = cap_calls_list self
   \<and> cap_calls_list (reset True self) = []"
  by (simp add: reset_def Let_def)

subsection \<open>\<open>inject_prompt\<close>\<close>

lemma renderToolsList_search_None:
  "\<forall>tool \<in> set tools. fd_name (tool_function tool) \<noteq> c
   \<Longrightarrow> renderToolsList_search t c tools = None"
  by (induction tools) auto

text \<open>
  The identity test of \<open>inject_prompt\<close> changes nothing: \<open>renderToolsList\<close> compares
  with \<open>"auto"\<close> by value again.
\<close>

lemma renderToolsList_select:
  "renderToolsList t (if tc \<noteq> None \<and> is_not_auto_literal same tc then tc else None) tools
     = renderToolsList t tc tools"
  by (auto simp: renderToolsList_def is_not_auto_literal_def)

text \<open>
  C1, as the code has it.  When \<open>tool_choice\<close> names a tool (a string other than
  \<open>"auto"\<close>) and no declared tool has that name, \<open>renderToolsList\<close> returns \<open>None\<close>: it
  renders nothing, and never the full tool list; and whatever \<open>inject_prompt\<close> does
  then, the request, its conversation included, is afterwards as it was.
\<close>

theorem inject_prompt_unknown_tool_choice:
  assumes "req_tool_choice request = Some c" and "c \<noteq> ''auto''"
    and "req_tools request = Some tools"
    and "\<forall>tool \<in> set tools. fd_name (tool_function tool) \<noteq> c"
  shows "renderToolsList (template self) (req_tool_choice request) tools = None
         \<and> snd (inject_prompt self same_object request) = request"
proof -
  have r: "renderToolsList (template self) (Some c) tools = None"
    using assms(2,4) by (simp add: renderToolsList_def renderToolsList_search_None)
  have "snd (inject_prompt self same_object request) = request"
    unfolding inject_prompt_def Let_def renderToolsList_select
    using assms(1,3) r by (simp split: messages.splits)
  with r assms(1) show ?thesis by simp
qed

theorem inject_prompt_unknown_tool_choice_witness:
  "renderToolsList example_template (Some ''weather'') [example_tool ''time''] = None
   \<and> snd (inject_prompt example_prompter False
        \<lparr>req_messages = MessagesStr ''hi'', req_tools = Some [example_tool ''time''],
         req_tool_choice = Some ''weather''\<rparr>)
     = \<lparr>req_messages = MessagesStr ''hi'', req_tools = Some [example_tool ''time''],
         req_tool_choice = Some ''weather''\<rparr>"
  using inject_prompt_unknown_tool_choice [of
        "\<lparr>req_messages = MessagesStr ''hi'', req_tools = Some [example_tool ''time''],
         req_tool_choice = Some ''weather''\<rparr>" "''weather''" "[example_tool ''time'']"
        example_prompter False]
  by (simp add: example_tool_def example_prompter_def)

text \<open>
  C1 as stated fails: with \<open>tool_choice = "weather"\<close>, the only tool \<open>time\<close> and an
  empty list of messages, \<open>inject_prompt\<close> returns normally; no error is signalled.
\<close>

theorem inject_prompt_empty_messages_no_error:
  "inject_prompt example_prompter False
     \<lparr>req_messages = MessagesList [], req_tools = Some [example_tool ''time''],
      req_tool_choice = Some ''weather''\<rparr>
   = (None, \<lparr>req_messages = MessagesList [], req_tools = Some [example_tool ''time''],
      req_tool_choice = Some ''weather''\<rparr>)"
  by (simp add: inject_prompt_def example_prompter_def)

text \<open>
  C7.  Rendering with the choice \<open>"auto"\<close> is rendering with no choice: the template's
  tool list view gets the full tool list and an unset choice in both cases, and
  \<open>inject_prompt\<close> on a request with \<open>tool_choice = "auto"\<close> does what it does on the same
  request with \<open>tool_choice = None\<close> (whether or not the string is the literal's object),
  the field \<open>tool_choice\<close> itself apart.
\<close>

theorem renderToolsList_auto_is_unset:
  "renderToolsList t (Some ''auto'') tools = renderToolsList t None tools
   \<and> renderToolsList t None tools = Some (render_FUNCTIONS_LIST t None tools)
   \<and> inject_prompt self same_object (request\<lparr>req_tool_choice := Some ''auto''\<rparr>)
     = (case inject_prompt self same_object' (request\<lparr>req_tool_choice := None\<rparr>) of
          (e, request') \<Rightarrow> (e, request'\<lparr>req_tool_choice := Some ''auto''\<rparr>))"
  unfolding inject_prompt_def Let_def renderToolsList_select
  by (simp add: renderToolsList_def split: option.splits messages.splits sum.splits)

lemma inject_prompt_fields:
  "req_tools (snd (inject_prompt self same_object request)) = req_tools request"
  "req_tool_choice (snd (inject_prompt self same_object request)) = req_tool_choice request"
  "ChatCompletionRequest.more (snd (inject_prompt self same_object request))
     = ChatCompletionRequest.more request"
  unfolding inject_prompt_def Let_def
  by (simp_all split: option.splits messages.splits sum.splits)

lemma inject_prompt_no_tools:
  "req_tools request = None \<or> req_tools request = Some [] \<or> call_token_str self = None
   \<Longrightarrow> inject_prompt self same_object request = (None, request)"
  unfolding inject_prompt_def by (auto split: option.splits)

lemma inject_prompt_str:
  assumes "req_tools request = Some tools" "tools \<noteq> []" "call_token_str self \<noteq> None"
    and "renderToolsList (template self) (req_tool_choice request) tools = Some text_inject"
    and "req_messages request = MessagesStr s"
  shows "inject_prompt self same_object request
           = (None, request\<lparr>req_messages := MessagesStr (text_inject @ s)\<rparr>)"
  unfolding inject_prompt_def Let_def renderToolsList_select using assms by simp

lemma inject_prompt_list:
  assumes "req_tools request = Some tools" "tools \<noteq> []" "call_token_str self \<noteq> None"
    and "renderToolsList (template self) (req_tool_choice request) tools = Some text_inject"
    and "req_messages request = MessagesList (m # ms)" "msg_content m = Some c"
  shows "inject_prompt self same_object request
           = (None, request\<lparr>req_messages :=
                MessagesList (m\<lparr>msg_content := Some (text_inject @ c)\<rparr> # ms)\<rparr>)"
  unfolding inject_prompt_def Let_def renderToolsList_select using assms by simp

lemma inject_prompt_first_turn:
  assumes "req_messages request = MessagesList (m # rest)"
  shows "snd (inject_prompt self same_object request) = request
      \<or> (\<exists>t. snd (inject_prompt self same_object request)
             = request\<lparr>req_messages := MessagesList (m\<lparr>msg_content := Some t\<rparr> # rest)\<rparr>)"
proof (cases "req_tools request")
  case None
  then show ?thesis by (simp add: inject_prompt_def)
next
  case (Some tools)
  show ?thesis
  proof (cases "py_str_add (renderToolsList (template self) (req_tool_choice request) tools)
                  (msg_content m)")
    case (Inl e)
    with Some assms show ?thesis
      unfolding inject_prompt_def Let_def renderToolsList_select by simp
  next
    case (Inr t)
    with Some assms show ?thesis
      unfolding inject_prompt_def Let_def renderToolsList_select by auto
  qed
qed

lemma inject_prompt_turns:
  assumes "req_messages request = MessagesList ms"
  shows "\<exists>ms'. req_messages (snd (inject_prompt self same_object request)) = MessagesList ms'
           \<and> length ms' = length ms \<and> drop 1 ms' = drop 1 ms
           \<and> (\<forall>k < length ms. msg_role (ms' ! k) = msg_role (ms ! k)
                 \<and> ChatCompletionMessage.more (ms' ! k) = ChatCompletionMessage.more (ms ! k))"
proof (cases ms)
  case Nil
  with assms show ?thesis
    unfolding inject_prompt_def Let_def by (simp split: option.splits)
next
  case (Cons m rest)
  from inject_prompt_first_turn [OF assms [unfolded Cons], of self same_object]
  show ?thesis
  proof
    assume "snd (inject_prompt self same_object request) = request"
    with assms show ?thesis by simp
  next
    assume "\<exists>t. snd (inject_prompt self same_object request)
             = request\<lparr>req_messages := MessagesList (m\<lparr>msg_content := Some t\<rparr> # rest)\<rparr>"
    then obtain t where "snd (inject_prompt self same_object request)
             = request\<lparr>req_messages := MessagesList (m\<lparr>msg_content := Some t\<rparr> # rest)\<rparr>" ..
    with Cons show ?thesis by (simp add: nth_Cons split: nat.splits)
  qed
qed

lemma inject_prompt_str_stays:
  assumes "req_messages request = MessagesStr s"
  shows "\<exists>s'. req_messages (snd (inject_prompt self same_object request)) = MessagesStr s'"
proof (cases "req_tools request")
  case None
  with assms show ?thesis by (simp add: inject_prompt_def)
next
  case (Some tools)
  show ?thesis
  proof (cases "py_str_add (renderToolsList (template self) (req_tool_choice request) tools)
                  (Some s)")
    case (Inl e)
    with Some assms show ?thesis
      unfolding inject_prompt_def Let_def renderToolsList_select by simp
  next
    case (Inr t)
    with Some assms show ?thesis
      unfolding inject_prompt_def Let_def renderToolsList_select by simp
  qed
qed

text \<open>
  C8.  \<open>inject_prompt\<close> never changes \<open>tools\<close>, \<open>tool_choice\<close> or any field other than
  \<open>messages\<close>.  Without tools, with an empty tool list or without a call token the
  request is returned unchanged.  Otherwise, where \<open>text_inject\<close> is the text that
  \<open>renderToolsList\<close> rendered: a conversation that is a string \<open>s\<close> becomes
  \<open>text_inject + s\<close>; in a list of turns the content \<open>c\<close> of the first turn becomes
  \<open>text_inject + c\<close>, every other field of that turn and every later turn staying as
  and where it was; an empty list of turns is left empty.  On every path, an exception
  included, a string stays a string, and a list of turns keeps its length, its turns
  after the first, and the role and the other fields of each turn.
\<close>

theorem inject_prompt_frame:
  "req_tools (snd (inject_prompt self same_object request)) = req_tools request
   \<and> req_tool_choice (snd (inject_prompt self same_object request)) = req_tool_choice request
   \<and> ChatCompletionRequest.more (snd (inject_prompt self same_object request))
       = ChatCompletionRequest.more request
   \<and> (req_tools request = None \<or> req_tools request = Some [] \<or> call_token_str self = None
        \<longrightarrow> inject_prompt self same_object request = (None, request))
   \<and> (\<forall>tools text_inject.
         req_tools request = Some tools \<and> tools \<noteq> [] \<and> call_token_str self \<noteq> None
         \<and> renderToolsList (template self) (req_tool_choice request) tools = Some text_inject
        \<longrightarrow>
         (\<forall>s. req_messages request = MessagesStr s \<longrightarrow>
            inject_prompt self same_object request
              = (None, request\<lparr>req_messages := MessagesStr (text_inject @ s)\<rparr>))
       \<and> (\<forall>m ms c. req_messages request = MessagesList (m # ms) \<and> msg_content m = Some c \<longrightarrow>
            inject_prompt self same_object request
              = (None, request\<lparr>req_messages :=
                   MessagesList (m\<lparr>msg_content := Some (text_inject @ c)\<rparr> # ms)\<rparr>))
       \<and> (req_messages request = MessagesList [] \<longrightarrow>
            inject_prompt self same_object request = (None, request)))
   \<and> (\<forall>s. req_messages request = MessagesStr s \<longrightarrow>
         (\<exists>s'. req_messages (snd (inject_prompt self same_object request)) = MessagesStr s'))
   \<and> (\<forall>ms. req_messages request = MessagesList ms \<longrightarrow>
         (\<exists>ms'. req_messages (snd (inject_prompt self same_object request)) = MessagesList ms'
            \<and> length ms' = length ms \<and> drop 1 ms' = drop 1 ms
            \<and> (\<forall>k < length ms. msg_role (ms' ! k) = msg_role (ms ! k)
                  \<and> ChatCompletionMessage.more (ms' ! k) = ChatCompletionMessage.more (ms ! k))))"
proof (intro conjI allI impI)
  show "inject_prompt self same_object request = (None, request)"
    if "req_messages request = MessagesList []"
    using that unfolding inject_prompt_def Let_def by (simp split: option.splits)
  show "\<exists>ms'. req_messages (snd (inject_prompt self same_object request)) = MessagesList ms'
            \<and> length ms' = length ms \<and> drop 1 ms' = drop 1 ms
            \<and> (\<forall>k < length ms. msg_role (ms' ! k) = msg_role (ms ! k)
                  \<and> ChatCompletionMessage.more (ms' ! k) = ChatCompletionMessage.more (ms ! k))"
    if "req_messages request = MessagesList ms" for ms
    using that by (rule inject_prompt_turns)
qed (simp_all add: inject_prompt_fields inject_prompt_no_tools inject_prompt_str
       inject_prompt_list inject_prompt_str_stays)

theorem inject_prompt_frame_witness:
  "inject_prompt example_prompter False example_request
     = (None, example_request\<lparr>req_messages := MessagesList
        [\<lparr>msg_role = ''system'', msg_content = Some ''Tools(weather): weather. Be brief.''\<rparr>,
         \<lparr>msg_role = ''user'', msg_content = Some ''What time is it?''\<rparr>]\<rparr>)
   \<and> inject_prompt example_prompter False (example_request\<lparr>req_messages := MessagesStr ''Hi''\<rparr>)
     = (None, example_request\<lparr>req_messages := MessagesStr ''Tools(weather): weather. Hi''\<rparr>)
   \<and> inject_prompt example_prompter False (example_request\<lparr>req_tools := None\<rparr>)
     = (None, example_request\<lparr>req_tools := None\<rparr>)"
  using inject_prompt_frame [of example_prompter False example_request]
    inject_prompt_frame [of example_prompter False
      "example_request\<lparr>req_messages := MessagesStr ''Hi''\<rparr>"]
    inject_prompt_frame [of example_prompter False "example_request\<lparr>req_tools := None\<rparr>"]
  by (simp add: example_request_def example_prompter_def example_template_def example_tool_def
        renderToolsList_def)

subsection \<open>Call records\<close>

lemma to_call_in_bounds:
  assumes "0 \<le> i" and "i < int (length (cap_calls_list self))"
    and "cap_calls_list self ! nat i = JDict d" and "map_of d ''call'' = Some (JStr name)"
  shows "to_ChatCompletionMessageToolCall dumps self i =
           Inr (Some \<lparr>tc_id = ''call_'' @ name @ ''_'' @ str_int i, tc_type = ''function'',
                      tc_function = \<lparr>fn_name = name,
                        fn_arguments = (case map_of d ''arguments'' of
                                          None \<Rightarrow> []
                                        | Some a \<Rightarrow> if a \<noteq> JNull then dumps a else [])\<rparr>\<rparr>)"
  using assms
  by (auto simp: to_ChatCompletionMessageToolCall_def py_list_get_def and_then_def
           split: option.splits)

lemma to_call_None_iff:
  "0 \<le> i \<Longrightarrow> to_ChatCompletionMessageToolCall dumps self i = Inr None
     \<longleftrightarrow> int (length (cap_calls_list self)) \<le> i"
  by (auto simp: to_ChatCompletionMessageToolCall_def py_list_get_def and_then_def Let_def
           split: sum.splits if_splits)

lemma to_call_at:
  assumes "0 \<le> i" and "i < int (length (cap_calls_list self))"
  shows "to_ChatCompletionMessageToolCall dumps self i =
           and_then (py_contains ''arguments'' (cap_calls_list self ! nat i)) (\<lambda>has_arguments.
           and_then (if has_arguments then py_getitem (cap_calls_list self ! nat i) ''arguments''
                     else Inr JNull) (\<lambda>arguments.
           and_then (and_then (py_getitem (cap_calls_list self ! nat i) ''call'') as_str) (\<lambda>name.
             Inr (Some \<lparr>tc_id = ''call_'' @ name @ ''_'' @ str_int i, tc_type = ''function'',
                        tc_function = \<lparr>fn_name = name,
                          fn_arguments = (if arguments \<noteq> JNull then dumps arguments else [])\<rparr>\<rparr>))))"
proof -
  from assms have ne: "length (cap_calls_list self) \<noteq> 0" by auto
  from assms have g: "py_list_get (cap_calls_list self) i = Inr (cap_calls_list self ! nat i)"
    by (simp add: py_list_get_def)
  show ?thesis
    unfolding to_ChatCompletionMessageToolCall_def Let_def
    using ne assms(2) by (simp add: g and_then_def)
qed

lemma to_call_Some_dict:
  assumes "0 \<le> i" and "to_ChatCompletionMessageToolCall dumps self i = Inr (Some m)"
  shows "i < int (length (cap_calls_list self))
         \<and> (\<exists>d name. cap_calls_list self ! nat i = JDict d \<and> map_of d ''call'' = Some (JStr name))"
proof -
  have lt: "i < int (length (cap_calls_list self))"
  proof (rule ccontr)
    assume "\<not> i < int (length (cap_calls_list self))"
    then have "to_ChatCompletionMessageToolCall dumps self i = Inr None"
      by (simp add: to_ChatCompletionMessageToolCall_def)
    with assms(2) show False by simp
  qed
  note at = to_call_at [OF assms(1) lt, of dumps]
  have ex: "\<exists>name. and_then (py_getitem (cap_calls_list self ! nat i) ''call'') as_str = Inr name"
  proof (cases "and_then (py_getitem (cap_calls_list self ! nat i) ''call'') as_str")
    case (Inl e)
    have "to_ChatCompletionMessageToolCall dumps self i \<noteq> Inr (Some m)"
      unfolding at Inl
      by (cases "py_contains ''arguments'' (cap_calls_list self ! nat i)";
          cases "py_getitem (cap_calls_list self ! nat i) ''arguments''")
         (simp_all add: and_then_def)
    with assms(2) show ?thesis by simp
  next
    case (Inr name)
    then show ?thesis by simp
  qed
  then obtain name where n: "and_then (py_getitem (cap_calls_list self ! nat i) ''call'') as_str = Inr name" ..
  then obtain d where d: "cap_calls_list self ! nat i = JDict d"
    by (cases "cap_calls_list self ! nat i") (simp_all add: and_then_def)
  with n obtain v where v: "map_of d ''call'' = Some v"
    by (cases "map_of d ''call''") (simp_all add: and_then_def)
  with n d have "v = JStr name"
    by (cases v) (simp_all add: and_then_def)
  with lt d v show ?thesis by simp
qed

lemma example_capture_calls:
  "cap_calls_list example_capture =
     [JDict [(''call'', JStr ''search''), (''arguments'', JDict [(''q'', JStr ''x'')])],
      JDict [(''call'', JStr ''time'')]]"
  by (simp add: example_capture_def ChatPromptCapture_init_def)

text \<open>
  C3 fails below zero.  The bounds test is \<open>call_id < len(self.calls_list)\<close> alone, so
  on the two captured calls of \<open>example_capture\<close> the index \<open>-1\<close>, which is no position
  \<open>0 \<le> i < 2\<close>, yields the record of the last call (with the id \<open>call_time_-1\<close>) and
  not \<open>None\<close>, and the index \<open>-3\<close> raises \<open>IndexError\<close>.  From zero upwards the result
  is \<open>None\<close> exactly out of bounds (\<open>to_call_None_iff\<close>).
\<close>

theorem to_call_negative_index:
  "to_ChatCompletionMessageToolCall example_dumps example_capture (- 1)
     = Inr (Some \<lparr>tc_id = ''call_time_-1'', tc_type = ''function'',
                  tc_function = \<lparr>fn_name = ''time'', fn_arguments = []\<rparr>\<rparr>)
   \<and> to_ChatCompletionMessageToolCall example_dumps example_capture (- 3) = Inl IndexError"
  by (simp add: to_ChatCompletionMessageToolCall_def example_capture_def
        ChatPromptCapture_init_def py_list_get_def and_then_def str_int_def str_nat.simps)

text \<open>
  C4.  At an index in bounds, a raw call that is a \<open>dict\<close> with a \<open>str\<close> under \<open>call\<close>
  yields a record; and whenever a record is returned, its \<open>arguments\<close> field is
  \<open>json.dumps\<close> of the value under \<open>arguments\<close> when there is one (a map in
  particular), and the empty string when the key is absent (or its value is \<open>null\<close>).
\<close>

theorem to_call_arguments:
  assumes "0 \<le> i" and "i < int (length (cap_calls_list self))"
  shows "(\<forall>d name. cap_calls_list self ! nat i = JDict d \<and> map_of d ''call'' = Some (JStr name)
            \<longrightarrow> (\<exists>m. to_ChatCompletionMessageToolCall dumps self i = Inr (Some m)))
       \<and> (\<forall>m. to_ChatCompletionMessageToolCall dumps self i = Inr (Some m) \<longrightarrow>
            (\<exists>d. cap_calls_list self ! nat i = JDict d
               \<and> (\<forall>a. map_of d ''arguments'' = Some (JDict a)
                      \<longrightarrow> fn_arguments (tc_function m) = dumps (JDict a))
               \<and> (\<forall>v. map_of d ''arguments'' = Some v \<and> v \<noteq> JNull
                      \<longrightarrow> fn_arguments (tc_function m) = dumps v)
               \<and> (map_of d ''arguments'' = None \<or> map_of d ''arguments'' = Some JNull
                      \<longrightarrow> fn_arguments (tc_function m) = [])))"
proof (intro conjI allI impI)
  fix d name
  assume "cap_calls_list self ! nat i = JDict d \<and> map_of d ''call'' = Some (JStr name)"
  with to_call_in_bounds [OF assms, of d name dumps]
  show "\<exists>m. to_ChatCompletionMessageToolCall dumps self i = Inr (Some m)" by simp
next
  fix m assume m: "to_ChatCompletionMessageToolCall dumps self i = Inr (Some m)"
  from to_call_Some_dict [OF assms(1) m] obtain d name
    where d: "cap_calls_list self ! nat i = JDict d" "map_of d ''call'' = Some (JStr name)"
    by blast
  from to_call_in_bounds [OF assms d, of dumps] m
  have f: "fn_arguments (tc_function m) =
             (case map_of d ''arguments'' of None \<Rightarrow> []
              | Some a \<Rightarrow> if a \<noteq> JNull then dumps a else [])"
    by auto
  have "(\<forall>a. map_of d ''arguments'' = Some (JDict a)
                      \<longrightarrow> fn_arguments (tc_function m) = dumps (JDict a))
               \<and> (\<forall>v. map_of d ''arguments'' = Some v \<and> v \<noteq> JNull
                      \<longrightarrow> fn_arguments (tc_function m) = dumps v)
               \<and> (map_of d ''arguments'' = None \<or> map_of d ''arguments'' = Some JNull
                      \<longrightarrow> fn_arguments (tc_function m) = [])"
    unfolding f by auto
  with d(1)
  show "\<exists>d. cap_calls_list self ! nat i = JDict d
               \<and> (\<forall>a. map_of d ''arguments'' = Some (JDict a)
                      \<longrightarrow> fn_arguments (tc_function m) = dumps (JDict a))
               \<and> (\<forall>v. map_of d ''arguments'' = Some v \<and> v \<noteq> JNull
                      \<longrightarrow> fn_arguments (tc_function m) = dumps v)
               \<and> (map_of d ''arguments'' = None \<or> map_of d ''arguments'' = Some JNull
                      \<longrightarrow> fn_arguments (tc_function m) = [])"
    by blast
qed

theorem to_call_arguments_witness:
  "(\<exists>m. to_ChatCompletionMessageToolCall example_dumps example_capture 0 = Inr (Some m)
       \<and> fn_arguments (tc_function m) = ''{\"q\": \"x\"}'')
   \<and> (\<exists>m. to_ChatCompletionMessageToolCall example_dumps example_capture 1 = Inr (Some m)
       \<and> fn_arguments (tc_function m) = [])"
proof -
  have b0: "(0::int) \<le> 0" "(0::int) < int (length (cap_calls_list example_capture))"
    and b1: "(0::int) \<le> 1" "(1::int) < int (length (cap_calls_list example_capture))"
    by (simp_all add: example_capture_calls)
  note t0 = to_call_arguments [OF b0, of example_dumps]
  note t1 = to_call_arguments [OF b1, of example_dumps]
  from t0 obtain m0 where m0: "to_ChatCompletionMessageToolCall example_dumps example_capture 0 = Inr (Some m0)"
    by (simp add: example_capture_calls) blast
  from t1 obtain m1 where m1: "to_ChatCompletionMessageToolCall example_dumps example_capture 1 = Inr (Some m1)"
    by (simp add: example_capture_calls) blast
  from t0 m0 have "fn_arguments (tc_function m0) = example_dumps (JDict [(''q'', JStr ''x'')])"
    by (simp add: example_capture_calls)
  then have a0: "fn_arguments (tc_function m0) = ''{\"q\": \"x\"}''"
    by (simp add: example_dumps_def)
  from t1 m1 have a1: "fn_arguments (tc_function m1) = []"
    by (simp add: example_capture_calls)
  from m0 a0 m1 a1 show ?thesis by simp
qed

lemma same_calls_same_id:
  assumes "cap_calls_list self' = cap_calls_list self"
  shows "map_sum id (map_option tc_id) (to_ChatCompletionMessageToolCall dumps' self' i)
       = map_sum id (map_option tc_id) (to_ChatCompletionMessageToolCall dumps self i)"
proof -
  have "map_sum id (map_option tc_id) (to_ChatCompletionMessageToolCall dumps0 s i)
      = (if length (cap_calls_list s) \<noteq> 0 \<and> i < int (length (cap_calls_list s)) then
           and_then (py_list_get (cap_calls_list s) i) (\<lambda>call.
           and_then (py_contains ''arguments'' call) (\<lambda>has_arguments.
           and_then (if has_arguments then py_getitem call ''arguments'' else Inr JNull) (\<lambda>arguments.
           and_then (and_then (py_getitem call ''call'') as_str) (\<lambda>name.
             Inr (Some (''call_'' @ name @ ''_'' @ str_int i))))))
         else Inr None)" for dumps0 s
    by (simp add: to_ChatCompletionMessageToolCall_def and_then_def Let_def split: sum.split)
  then show ?thesis using assms by simp
qed

text \<open>
  C5.  At an index \<open>i\<close> in bounds, a raw call that is a \<open>dict\<close> with a \<open>str\<close> under
  \<open>call\<close> yields a record; whenever a record is returned, its id is
  \<open>"call_" + name + "_" + str(i)\<close> for the name under \<open>call\<close>; and the id depends on
  the calls list and the index only: any capture with the same calls list, with any
  encoder, gives the same id (or the same exception, or \<open>None\<close>).
\<close>

theorem to_call_id:
  assumes "0 \<le> i" and "i < int (length (cap_calls_list self))"
  shows "(\<forall>d name. cap_calls_list self ! nat i = JDict d \<and> map_of d ''call'' = Some (JStr name)
            \<longrightarrow> (\<exists>m. to_ChatCompletionMessageToolCall dumps self i = Inr (Some m)))
       \<and> (\<forall>m. to_ChatCompletionMessageToolCall dumps self i = Inr (Some m) \<longrightarrow>
            (\<exists>d name. cap_calls_list self ! nat i = JDict d
               \<and> map_of d ''call'' = Some (JStr name)
               \<and> tc_id m = ''call_'' @ name @ ''_'' @ str_int i))
       \<and> (\<forall>self' dumps'. cap_calls_list self' = cap_calls_list self \<longrightarrow>
            map_sum id (map_option tc_id) (to_ChatCompletionMessageToolCall dumps' self' i)
              = map_sum id (map_option tc_id) (to_ChatCompletionMessageToolCall dumps self i))"
proof (intro conjI allI impI)
  fix d name
  assume "cap_calls_list self ! nat i = JDict d \<and> map_of d ''call'' = Some (JStr name)"
  with to_call_in_bounds [OF assms, of d name dumps]
  show "\<exists>m. to_ChatCompletionMessageToolCall dumps self i = Inr (Some m)" by simp
next
  fix m assume m: "to_ChatCompletionMessageToolCall dumps self i = Inr (Some m)"
  from to_call_Some_dict [OF assms(1) m] obtain d name
    where d: "cap_calls_list self ! nat i = JDict d" "map_of d ''call'' = Some (JStr name)"
    by blast
  from to_call_in_bounds [OF assms d, of dumps] m
  have "tc_id m = ''call_'' @ name @ ''_'' @ str_int i" by auto
  with d show "\<exists>d name. cap_calls_list self ! nat i = JDict d
               \<and> map_of d ''call'' = Some (JStr name)
               \<and> tc_id m = ''call_'' @ name @ ''_'' @ str_int i"
    by blast
next
  fix self' :: ChatPromptCapture and dumps'
  assume "cap_calls_list self' = cap_calls_list self"
  then show "map_sum id (map_option tc_id) (to_ChatCompletionMessageToolCall dumps' self' i)
              = map_sum id (map_option tc_id) (to_ChatCompletionMessageToolCall dumps self i)"
    by (rule same_calls_same_id)
qed

theorem to_call_id_witness:
  "\<exists>m. to_ChatCompletionMessageToolCall example_dumps example_capture 1 = Inr (Some m)
       \<and> tc_id m = ''call_time_1''
       \<and> map_sum id (map_option tc_id)
           (to_ChatCompletionMessageToolCall (\<lambda>v. []) (reset False example_capture) 1)
         = Inr (Some ''call_time_1'')"
proof -
  have b: "(0::int) \<le> 1" "(1::int) < int (length (cap_calls_list example_capture))"
    by (simp_all add: example_capture_calls)
  have r: "cap_calls_list (reset False example_capture) = cap_calls_list example_capture"
    by (simp add: reset_def)
  have s: "str_int 1 = ''1''"
    by (simp add: str_int_def str_nat.simps)
  note t = to_call_id [OF b, of example_dumps]
  from t obtain m where m: "to_ChatCompletionMessageToolCall example_dumps example_capture 1 = Inr (Some m)"
    by (simp add: example_capture_calls) blast
  with t obtain d name where d: "cap_calls_list example_capture ! nat 1 = JDict d"
      "map_of d ''call'' = Some (JStr name)" "tc_id m = ''call_'' @ name @ ''_'' @ str_int 1"
    by blast
  from d(1,2) have "name = ''time''" by (auto simp: example_capture_calls)
  with d(3) s have i: "tc_id m = ''call_time_1''" by simp
  from t r have "map_sum id (map_option tc_id)
           (to_ChatCompletionMessageToolCall (\<lambda>v. []) (reset False example_capture) 1)
         = map_sum id (map_option tc_id)
           (to_ChatCompletionMessageToolCall example_dumps example_capture 1)"
    by blast
  with m i show ?thesis by simp
qed

lemma collect_calls_Inr:
  "collect_calls f ids acc = Inr rs \<Longrightarrow>
     length rs = length acc + length ids \<and> take (length acc) rs = acc
     \<and> (\<forall>k < length ids. f (int (ids ! k)) = Inr (rs ! (length acc + k)))"
proof (induction ids arbitrary: acc)
  case Nil
  then show ?case by simp
next
  case (Cons i ids)
  from Cons.prems obtain v where v: "f (int i) = Inr v"
    and rest: "collect_calls f ids (acc @ [v]) = Inr rs"
    by (auto split: sum.splits)
  from Cons.IH [OF rest]
  have len: "length rs = length acc + 1 + length ids"
    and tk: "take (length acc + 1) rs = acc @ [v]"
    and nth: "\<forall>k < length ids. f (int (ids ! k)) = Inr (rs ! (length acc + 1 + k))"
    by simp_all
  from tk have tk': "take (length acc) rs = acc"
    by (metis append_eq_conv_conj length_append_singleton take_all_iff take_take
          min.absorb1 le_add1 length_take)
  from tk len have "rs ! length acc = v"
    by (metis One_nat_def add.right_neutral add_Suc_right length_append_singleton lessI
          nth_append_length nth_take)
  with v nth have "\<forall>k < length (i # ids). f (int ((i # ids) ! k)) = Inr (rs ! (length acc + k))"
    by (auto simp: nth_Cons split: nat.splits)
  with len tk' show ?case by simp
qed

lemma collect_calls_total:
  "(\<forall>i \<in> set ids. \<exists>v. f (int i) = Inr v) \<Longrightarrow> \<exists>rs. collect_calls f ids acc = Inr rs"
  by (induction ids arbitrary: acc) auto

lemma collect_calls_same_error:
  assumes "\<And>i e. f' i = Inl e \<longleftrightarrow> f i = Inl e"
  shows "collect_calls f' ids acc' = Inl e \<longleftrightarrow> collect_calls f ids acc = Inl e"
proof (induction ids arbitrary: acc acc')
  case Nil
  then show ?case by simp
next
  case (Cons i ids)
  show ?case
  proof (cases "f (int i)")
    case (Inl e0)
    then have "f' (int i) = Inl e0" using assms by simp
    with Inl show ?thesis by simp
  next
    case (Inr v)
    then obtain v' where "f' (int i) = Inr v'"
      using assms [of "int i"] by (cases "f' (int i)") auto
    with Inr Cons.IH show ?thesis by simp
  qed
qed

lemma to_delta_cases:
  "to_ChoiceDeltaToolCall dumps self i =
     (case to_ChatCompletionMessageToolCall dumps self i of
        Inl e \<Rightarrow> Inl e
      | Inr None \<Rightarrow> Inr None
      | Inr (Some m) \<Rightarrow> Inr (Some \<lparr>dtc_index = i, dtc_id = tc_id m, dtc_type = tc_type m,
                                  dtc_function = tc_function m\<rparr>))"
  by (simp add: to_ChoiceDeltaToolCall_def and_then_def split: sum.splits option.splits)

lemma to_call_list_nth:
  assumes "to_ChatCompletionMessageToolCallList dumps self = Inr ms"
  shows "length ms = num_calls self"
    and "k < num_calls self \<Longrightarrow> to_ChatCompletionMessageToolCall dumps self (int k) = Inr (ms ! k)"
  using collect_calls_Inr [OF assms [unfolded to_ChatCompletionMessageToolCallList_def]]
  by simp_all

lemma to_delta_list_nth:
  assumes "to_ChoiceDeltaToolCallList dumps self = Inr ds"
  shows "length ds = num_calls self"
    and "k < num_calls self \<Longrightarrow> to_ChoiceDeltaToolCall dumps self (int k) = Inr (ds ! k)"
  using collect_calls_Inr [OF assms [unfolded to_ChoiceDeltaToolCallList_def]]
  by simp_all

lemma lists_same_error:
  "to_ChoiceDeltaToolCallList dumps self = Inl e
     \<longleftrightarrow> to_ChatCompletionMessageToolCallList dumps self = Inl e"
  unfolding to_ChoiceDeltaToolCallList_def to_ChatCompletionMessageToolCallList_def
  by (rule collect_calls_same_error)
     (simp add: to_delta_cases split: sum.splits option.splits)

lemma to_call_list_total:
  assumes "\<forall>c \<in> set (cap_calls_list self). \<exists>d name. c = JDict d \<and> map_of d ''call'' = Some (JStr name)"
  shows "\<exists>ms. to_ChatCompletionMessageToolCallList dumps self = Inr ms"
  unfolding to_ChatCompletionMessageToolCallList_def
proof (rule collect_calls_total, rule ballI)
  fix i assume "i \<in> set [0 ..< num_calls self]"
  then have i: "i < length (cap_calls_list self)" by (simp add: num_calls_def)
  with assms obtain d name where "cap_calls_list self ! i = JDict d"
    "map_of d ''call'' = Some (JStr name)"
    by (metis nth_mem)
  with i to_call_in_bounds [of "int i" self d name dumps]
  show "\<exists>v. to_ChatCompletionMessageToolCall dumps self (int i) = Inr v" by simp
qed

text \<open>
  C6.  \<open>to_ChoiceDeltaToolCall\<close> is \<open>None\<close> exactly when
  \<open>to_ChatCompletionMessageToolCall\<close> is, raises exactly when it raises, and otherwise
  carries the same \<open>id\<close>, \<open>type\<close> and \<open>function\<close> with \<open>index = i\<close>.  The two list
  functions raise together; when they return, both lists have one entry per captured
  call, and the entry at position \<open>k\<close> of the delta list is the entry at position \<open>k\<close>
  of the other list with \<open>index = k\<close>.  They do return when every captured call is a
  \<open>dict\<close> with a \<open>str\<close> under \<open>call\<close>.
\<close>

theorem delta_matches_call:
  "(to_ChoiceDeltaToolCall dumps self i = Inr None
      \<longleftrightarrow> to_ChatCompletionMessageToolCall dumps self i = Inr None)
   \<and> (\<forall>e. to_ChoiceDeltaToolCall dumps self i = Inl e
      \<longleftrightarrow> to_ChatCompletionMessageToolCall dumps self i = Inl e)
   \<and> (\<forall>m. to_ChatCompletionMessageToolCall dumps self i = Inr (Some m) \<longrightarrow>
        to_ChoiceDeltaToolCall dumps self i =
          Inr (Some \<lparr>dtc_index = i, dtc_id = tc_id m, dtc_type = tc_type m,
                     dtc_function = tc_function m\<rparr>))
   \<and> (\<forall>e. to_ChoiceDeltaToolCallList dumps self = Inl e
      \<longleftrightarrow> to_ChatCompletionMessageToolCallList dumps self = Inl e)
   \<and> (\<forall>ms. to_ChatCompletionMessageToolCallList dumps self = Inr ms \<longrightarrow>
        length ms = num_calls self
        \<and> (\<exists>ds. to_ChoiceDeltaToolCallList dumps self = Inr ds
              \<and> length ds = num_calls self
              \<and> (\<forall>k < num_calls self. \<exists>m. ms ! k = Some m
                    \<and> ds ! k = Some \<lparr>dtc_index = int k, dtc_id = tc_id m,
                                      dtc_type = tc_type m, dtc_function = tc_function m\<rparr>)))
   \<and> ((\<forall>c \<in> set (cap_calls_list self).
          \<exists>d name. c = JDict d \<and> map_of d ''call'' = Some (JStr name))
        \<longrightarrow> (\<exists>ms. to_ChatCompletionMessageToolCallList dumps self = Inr ms))"
proof (intro conjI allI impI)
  fix ms assume ms: "to_ChatCompletionMessageToolCallList dumps self = Inr ms"
  show "length ms = num_calls self" by (rule to_call_list_nth(1) [OF ms])
  from ms lists_same_error [of dumps self]
  obtain ds where ds: "to_ChoiceDeltaToolCallList dumps self = Inr ds"
    by (cases "to_ChoiceDeltaToolCallList dumps self") auto
  have "\<exists>m. ms ! k = Some m
          \<and> ds ! k = Some \<lparr>dtc_index = int k, dtc_id = tc_id m, dtc_type = tc_type m,
                            dtc_function = tc_function m\<rparr>"
    if k: "k < num_calls self" for k
  proof -
    have c: "to_ChatCompletionMessageToolCall dumps self (int k) = Inr (ms ! k)"
      by (rule to_call_list_nth(2) [OF ms k])
    have d: "to_ChoiceDeltaToolCall dumps self (int k) = Inr (ds ! k)"
      by (rule to_delta_list_nth(2) [OF ds k])
    from k have "\<not> int (length (cap_calls_list self)) \<le> int k" by (simp add: num_calls_def)
    with c to_call_None_iff [of "int k" dumps self] obtain m where m: "ms ! k = Some m"
      by (cases "ms ! k") auto
    with c d show ?thesis by (simp add: to_delta_cases)
  qed
  with ds to_delta_list_nth(1) [OF ds]
  show "\<exists>ds. to_ChoiceDeltaToolCallList dumps self = Inr ds \<and> length ds = num_calls self
          \<and> (\<forall>k < num_calls self. \<exists>m. ms ! k = Some m
                \<and> ds ! k = Some \<lparr>dtc_index = int k, dtc_id = tc_id m,
                                  dtc_type = tc_type m, dtc_function = tc_function m\<rparr>)"
    by blast
qed (auto simp: to_delta_cases lists_same_error to_call_list_total
       split: sum.splits option.splits)

theorem delta_matches_call_witness:
  "to_ChatCompletionMessageToolCallList example_dumps example_capture =
     Inr [Some \<lparr>tc_id = ''call_search_0'', tc_type = ''function'',
                tc_function = \<lparr>fn_name = ''search'', fn_arguments = ''{\"q\": \"x\"}''\<rparr>\<rparr>,
          Some \<lparr>tc_id = ''call_time_1'', tc_type = ''function'',
                tc_function = \<lparr>fn_name = ''time'', fn_arguments = []\<rparr>\<rparr>]
   \<and> (\<exists>ds. to_ChoiceDeltaToolCallList example_dumps example_capture = Inr ds
         \<and> length ds = 2
         \<and> ds ! 0 = Some \<lparr>dtc_index = 0, dtc_id = ''call_search_0'', dtc_type = ''function'',
                dtc_function = \<lparr>fn_name = ''search'', fn_arguments = ''{\"q\": \"x\"}''\<rparr>\<rparr>
         \<and> ds ! 1 = Some \<lparr>dtc_index = 1, dtc_id = ''call_time_1'', dtc_type = ''function'',
                dtc_function = \<lparr>fn_name = ''time'', fn_arguments = []\<rparr>\<rparr>)"
proof -
  have ms: "to_ChatCompletionMessageToolCallList example_dumps example_capture =
     Inr [Some \<lparr>tc_id = ''call_search_0'', tc_type = ''function'',
                tc_function = \<lparr>fn_name = ''search'', fn_arguments = ''{\"q\": \"x\"}''\<rparr>\<rparr>,
          Some \<lparr>tc_id = ''call_time_1'', tc_type = ''function'',
                tc_function = \<lparr>fn_name = ''time'', fn_arguments = []\<rparr>\<rparr>]"
    by (simp add: to_ChatCompletionMessageToolCallList_def num_calls_def example_capture_def
          ChatPromptCapture_init_def upt_rec to_ChatCompletionMessageToolCall_def
          py_list_get_def and_then_def str_int_def str_nat.simps example_dumps_def)
  have n: "num_calls example_capture = 2"
    by (simp add: num_calls_def example_capture_def ChatPromptCapture_init_def)
  from delta_matches_call [of example_dumps example_capture 0] ms n
  obtain ds where ds: "to_ChoiceDeltaToolCallList example_dumps example_capture = Inr ds"
    "length ds = 2"
    and nth: "\<forall>k<2. \<exists>m. [Some \<lparr>tc_id = ''call_search_0'', tc_type = ''function'',
                tc_function = \<lparr>fn_name = ''search'', fn_arguments = ''{\"q\": \"x\"}''\<rparr>\<rparr>,
          Some \<lparr>tc_id = ''call_time_1'', tc_type = ''function'',
                tc_function = \<lparr>fn_name = ''time'', fn_arguments = []\<rparr>\<rparr>] ! k = Some m
                    \<and> ds ! k = Some \<lparr>dtc_index = int k, dtc_id = tc_id m,
                                      dtc_type = tc_type m, dtc_function = tc_function m\<rparr>"
    by auto
  from nth [rule_format, of 0] nth [rule_format, of 1] ds ms show ?thesis by simp
qed

subsection \<open>\<open>make_calls_list\<close>\<close>

text \<open>
  Payloads that decode to a \<open>dict\<close> or do not decode at all never raise: the decoded
  dicts with a \<open>call\<close> key are appended in the order of their segments, everything else
  is dropped.  With a malformed segment between two valid ones, both valid calls are
  kept, in order.
\<close>

lemma make_calls_loop_dicts:
  assumes "\<forall>v \<in> set segs. \<forall>j. loads v = Some j \<longrightarrow> (\<exists>d. j = JDict d)"
  shows "make_calls_loop loads segs self =
           (None, self\<lparr>cap_calls_list := cap_calls_list self @
              List.map_filter
                (\<lambda>v. if v = [] then None
                     else case loads v of
                            Some (JDict d) \<Rightarrow> if map_of d ''call'' \<noteq> None then Some (JDict d) else None
                          | _ \<Rightarrow> None) segs\<rparr>)"
  using assms
proof (induction segs arbitrary: self)
  case Nil
  then show ?case by (simp add: List.map_filter_simps)
next
  case (Cons v segs)
  then have IH: "\<And>self. make_calls_loop loads segs self =
           (None, self\<lparr>cap_calls_list := cap_calls_list self @
              List.map_filter
                (\<lambda>v. if v = [] then None
                     else case loads v of
                            Some (JDict d) \<Rightarrow> if map_of d ''call'' \<noteq> None then Some (JDict d) else None
                          | _ \<Rightarrow> None) segs\<rparr>)"
    by simp
  from Cons.prems have "loads v = None \<or> (\<exists>d. loads v = Some (JDict d))"
    by (cases "loads v") auto
  then show ?case
    by (auto simp: IH List.map_filter_simps)
qed

lemma make_calls_list_malformed_between:
  "make_calls_list example_loads example_prompter
     (ChatPromptCapture_init\<lparr>cap_content :=
        ''{\"call\": \"search\"}<<CALL>>{not json<<CALL>>{\"call\": \"time\"}''\<rparr>)
   = (None,
      ChatPromptCapture_init\<lparr>cap_content :=
        ''{\"call\": \"search\"}<<CALL>>{not json<<CALL>>{\"call\": \"time\"}'',
        cap_calls_list := [JDict [(''call'', JStr ''search'')], JDict [(''call'', JStr ''time'')]]\<rparr>)"
  by (simp add: make_calls_list_def func_call_token_def example_prompter_def py_split_def
        example_loads_def ChatPromptCapture_init_def)

text \<open>
  C2 fails on a payload that decodes to a number.  With the buffer
  \<open>123<<CALL>>{"call": "search"}\<close>, the first segment decodes to the \<open>int\<close> 123,
  \<open>"call" in 123\<close> raises \<open>TypeError\<close>, which the \<open>try\<close> does not catch: the call ends
  with that exception and the valid second segment is never appended.
\<close>

theorem make_calls_list_raises:
  "make_calls_list example_loads example_prompter
     (ChatPromptCapture_init\<lparr>cap_content := ''123<<CALL>>{\"call\": \"search\"}''\<rparr>)
   = (Some TypeError,
      ChatPromptCapture_init\<lparr>cap_content := ''123<<CALL>>{\"call\": \"search\"}''\<rparr>)"
  by (simp add: make_calls_list_def func_call_token_def example_prompter_def py_split_def
        example_loads_def ChatPromptCapture_init_def)

text \<open>
  What the loop does keep: every element it appends passes the test
  \<open>"call" in call_dict\<close>.
\<close>

lemma make_calls_loop_invariant:
  assumes "\<forall>c \<in> set (cap_calls_list self). py_contains ''call'' c = Inr True"
  shows "\<forall>c \<in> set (cap_calls_list (snd (make_calls_loop loads segs self))).
           py_contains ''call'' c = Inr True"
  using assms
proof (induction segs arbitrary: self)
  case Nil
  then show ?case by simp
next
  case (Cons v segs)
  show ?case
  proof (cases "v \<noteq> [] \<and> (\<exists>j. loads v = Some j \<and> py_contains ''call'' j = Inr True)")
    case True
    then obtain j where j: "loads v = Some j" "py_contains ''call'' j = Inr True" by blast
    with Cons.prems
    have "\<forall>c \<in> set (cap_calls_list (self\<lparr>cap_calls_list := cap_calls_list self @ [j]\<rparr>)).
            py_contains ''call'' c = Inr True" by simp
    from Cons.IH [OF this] True j show ?thesis by simp
  next
    case False
    with Cons.IH [OF Cons.prems] Cons.prems show ?thesis
      by (auto split: option.splits sum.splits bool.splits)
  qed
qed

text \<open>
  C10 fails on a payload that decodes to a \<open>str\<close>.  The buffer \<open>"call"\<close> (a JSON
  string) decodes to the \<open>str\<close> \<open>call\<close>; \<open>"call" in "call"\<close> is the substring test and
  holds, so the \<open>str\<close> is appended to the calls list; it has no key \<open>call\<close>, and at the
  index 0, in bounds, the lookup \<open>call["call"]\<close> raises \<open>TypeError\<close>.
\<close>

theorem make_calls_list_appends_str:
  "make_calls_list example_loads example_prompter
     (ChatPromptCapture_init\<lparr>cap_content := ''\"call\"''\<rparr>)
   = (None, ChatPromptCapture_init\<lparr>cap_content := ''\"call\"'',
              cap_calls_list := [JStr ''call'']\<rparr>)
   \<and> to_ChatCompletionMessageToolCall example_dumps
        (ChatPromptCapture_init\<lparr>cap_content := ''\"call\"'',
              cap_calls_list := [JStr ''call'']\<rparr>) 0 = Inl TypeError"
  by (simp add: make_calls_list_def func_call_token_def example_prompter_def py_split_def
        example_loads_def ChatPromptCapture_init_def to_ChatCompletionMessageToolCall_def
        py_list_get_def and_then_def)

end
